theory Spec2Isabelle
  imports Complex_Main
begin

section \<open>The scene graph behind \<open>props.initialInstances\<close>\<close>

text \<open>
  The editor component of \<^verbatim>\<open>InstancesFullEditor/index.js\<close> never copies an instance: it
  holds references into the container \<^verbatim>\<open>this.props.initialInstances\<close> and mutates the
  instances through setters. The container is therefore an explicit store: an ordered list
  of (reference, instance) pairs and a counter that issues references.
\<close>

type_synonym ref = nat

record initialInstance =
  objectName :: string
  xPos :: real
  yPos :: real
  zOrder :: int
  layerName :: string

record sceneGraph =
  entries :: "(ref \<times> initialInstance) list"
  nextRef :: ref

text \<open>
  Modelled from the spec: the container class (\<^verbatim>\<open>gd.InitialInstancesContainer\<close>) is not
  among the sources. Section 6 gives its contract: \<^verbatim>\<open>insertInstance()\<close> returns a new,
  default-valued instance; \<^verbatim>\<open>removeInstance\<close>, \<^verbatim>\<open>removeInstancesOnLayer\<close> and
  \<^verbatim>\<open>moveInstancesToLayer\<close> edit the content; \<^verbatim>\<open>iterateInstances(visitor)\<close> traverses it.
  Section 3 makes \<^verbatim>\<open>zOrder\<close> an integer; a reference that is not in the graph is skipped
  silently (section 4.3). Neither the spec nor the sources give the values of a
  default-valued instance, so the instance the container hands out is the parameter
  \<open>dflt\<close>.
\<close>

definition insertNewInitialInstance :: "initialInstance \<Rightarrow> sceneGraph \<Rightarrow> ref \<times> sceneGraph" where
  "insertNewInitialInstance dflt g =
     (nextRef g,
      g\<lparr>entries := entries g @ [(nextRef g, dflt)],
        nextRef := Suc (nextRef g)\<rparr>)"

definition updateInstance :: "ref \<Rightarrow> (initialInstance \<Rightarrow> initialInstance) \<Rightarrow> sceneGraph \<Rightarrow> sceneGraph" where
  "updateInstance r f g =
     g\<lparr>entries := map (\<lambda>(k, i). if k = r then (k, f i) else (k, i)) (entries g)\<rparr>"

definition setObjectName :: "ref \<Rightarrow> string \<Rightarrow> sceneGraph \<Rightarrow> sceneGraph" where
  "setObjectName r n = updateInstance r (\<lambda>i. i\<lparr>objectName := n\<rparr>)"

definition setX :: "ref \<Rightarrow> real \<Rightarrow> sceneGraph \<Rightarrow> sceneGraph" where
  "setX r v = updateInstance r (\<lambda>i. i\<lparr>xPos := v\<rparr>)"

definition setY :: "ref \<Rightarrow> real \<Rightarrow> sceneGraph \<Rightarrow> sceneGraph" where
  "setY r v = updateInstance r (\<lambda>i. i\<lparr>yPos := v\<rparr>)"

definition setZOrder :: "ref \<Rightarrow> int \<Rightarrow> sceneGraph \<Rightarrow> sceneGraph" where
  "setZOrder r z = updateInstance r (\<lambda>i. i\<lparr>zOrder := z\<rparr>)"

definition removeInstance :: "ref \<Rightarrow> sceneGraph \<Rightarrow> sceneGraph" where
  "removeInstance r g = g\<lparr>entries := filter (\<lambda>(k, i). k \<noteq> r) (entries g)\<rparr>"

definition removeAllInstancesOnLayer :: "string \<Rightarrow> sceneGraph \<Rightarrow> sceneGraph" where
  "removeAllInstancesOnLayer l g =
     g\<lparr>entries := filter (\<lambda>(k, i). layerName i \<noteq> l) (entries g)\<rparr>"

definition moveInstancesToLayer :: "string \<Rightarrow> string \<Rightarrow> sceneGraph \<Rightarrow> sceneGraph" where
  "moveInstancesToLayer fromLayer toLayer g =
     g\<lparr>entries :=
         map (\<lambda>(k, i). if layerName i = fromLayer then (k, i\<lparr>layerName := toLayer\<rparr>) else (k, i))
           (entries g)\<rparr>"

definition iterateOverInstances :: "(initialInstance \<Rightarrow> 'a \<Rightarrow> 'a) \<Rightarrow> sceneGraph \<Rightarrow> 'a \<Rightarrow> 'a" where
  "iterateOverInstances visitor g acc = fold visitor (map snd (entries g)) acc"

definition getInstance :: "sceneGraph \<Rightarrow> ref \<Rightarrow> initialInstance option" where
  "getInstance g r = map_of (entries g) r"

definition wellFormed :: "sceneGraph \<Rightarrow> bool" where
  "wellFormed g = list_all (\<lambda>(k, i). k < nextRef g) (entries g)"

definition existingZOrders :: "sceneGraph \<Rightarrow> int list" where
  "existingZOrders g = map (\<lambda>(k, i). zOrder i) (entries g)"

text \<open>
  Modelled from the spec: \<^verbatim>\<open>gd.HighestZOrderFinder\<close> is not among the sources. It is the
  visitor of section 6, "used to compute maximum z-order": it keeps the highest
  \<^verbatim>\<open>zOrder\<close> of the instances it has visited (\<open>None\<close> before the first visit). The
  component creates one finder in \<^verbatim>\<open>componentWillMount\<close> and hands the same object to
  every traversal, so its value is part of the editor's state. What a finder reports
  before any visit is never read: \<^verbatim>\<open>_onAddInstance\<close> asks only after a traversal that
  visits at least the instance it has just inserted.
\<close>

type_synonym highestZOrderFinder = "int option"

definition visit :: "initialInstance \<Rightarrow> highestZOrderFinder \<Rightarrow> highestZOrderFinder" where
  "visit i f = (case f of None \<Rightarrow> Some (zOrder i) | Some h \<Rightarrow> Some (max h (zOrder i)))"

definition getHighestZOrder :: "highestZOrderFinder \<Rightarrow> int" where
  "getHighestZOrder f = (case f of None \<Rightarrow> 0 | Some h \<Rightarrow> h)"


section \<open>Selection (\<open>./InstancesSelection\<close>)\<close>

text \<open>
  Modelled from the spec: the class \<^verbatim>\<open>InstancesSelection\<close> is not among the sources.
  Section 4.1: \<^verbatim>\<open>select\<close> adds a reference if absent, \<^verbatim>\<open>clear\<close> empties the set
  unconditionally, \<^verbatim>\<open>getSelected\<close> returns the members in order.
\<close>

type_synonym instancesSelection = "ref list"

definition getSelectedInstances :: "instancesSelection \<Rightarrow> ref list" where
  "getSelectedInstances sel = sel"

definition clearSelection :: "instancesSelection \<Rightarrow> instancesSelection" where
  "clearSelection sel = []"

definition selectInstance :: "ref \<Rightarrow> instancesSelection \<Rightarrow> instancesSelection" where
  "selectInstance r sel = (if r \<in> set sel then sel else sel @ [r])"


section \<open>History (\<open>./History\<close>)\<close>

text \<open>
  Modelled from the spec: the module \<^verbatim>\<open>History.js\<close> is not among the sources. Section 4.2:
  an entry is a snapshot of the whole graph content; \<^verbatim>\<open>commit\<close> pushes the previous
  present onto the past, snapshots the graph as the new present and clears the future, the
  past being capped at a fixed depth with the oldest entries evicted first; \<^verbatim>\<open>undo\<close> and
  \<^verbatim>\<open>redo\<close> are no-ops on an empty side and otherwise move one entry and restore the graph
  from it. The depth is not given, so it is the parameter \<open>maxDepth\<close>. Restoring replaces
  the content and invalidates the references held before: the restored instances get
  references that were never issued.
\<close>

type_synonym historyEntry = "initialInstance list"

record historyState =
  past :: "historyEntry list"
  present :: historyEntry
  future :: "historyEntry list"

definition snapshot :: "sceneGraph \<Rightarrow> historyEntry" where
  "snapshot g = map snd (entries g)"

definition restore :: "historyEntry \<Rightarrow> sceneGraph \<Rightarrow> sceneGraph" where
  "restore e g =
     \<lparr>entries = zip [nextRef g ..< nextRef g + length e] e,
      nextRef = nextRef g + length e\<rparr>"

definition getHistoryInitialState :: "sceneGraph \<Rightarrow> historyState" where
  "getHistoryInitialState g = \<lparr>past = [], present = snapshot g, future = []\<rparr>"

definition evictOldest :: "nat \<Rightarrow> 'a list \<Rightarrow> 'a list" where
  "evictOldest maxDepth xs = drop (length xs - maxDepth) xs"

definition saveToHistory :: "nat \<Rightarrow> historyState \<Rightarrow> sceneGraph \<Rightarrow> historyState" where
  "saveToHistory maxDepth h g =
     \<lparr>past = evictOldest maxDepth (past h @ [present h]),
      present = snapshot g,
      future = []\<rparr>"

definition canUndo :: "historyState \<Rightarrow> bool" where
  "canUndo h = (past h \<noteq> [])"

definition canRedo :: "historyState \<Rightarrow> bool" where
  "canRedo h = (future h \<noteq> [])"

definition historyUndo :: "historyState \<Rightarrow> sceneGraph \<Rightarrow> historyState \<times> sceneGraph" where
  "historyUndo h g =
     (if past h = [] then (h, g)
      else (\<lparr>past = butlast (past h),
             present = last (past h),
             future = present h # future h\<rparr>,
            restore (last (past h)) g))"

definition historyRedo :: "historyState \<Rightarrow> sceneGraph \<Rightarrow> historyState \<times> sceneGraph" where
  "historyRedo h g =
     (if future h = [] then (h, g)
      else (\<lparr>past = past h @ [present h],
             present = hd (future h),
             future = tl (future h)\<rparr>,
            restore (hd (future h)) g))"


section \<open>Addition of JavaScript numbers\<close>

text \<open>
  \<^verbatim>\<open>this.zOrderFinder.getHighestZOrder() + 1\<close> adds JavaScript numbers, which are IEEE 754
  doubles. On integer values the result is the exact sum rounded to 53 significant bits,
  ties to the even significand: the sum is exact up to magnitude \<open>2^53\<close>, and beyond it
  adding 1 can be lost (\<open>2^53 + 1\<close> gives \<open>2^53\<close>). Adding 1 to a finite number never
  reaches infinity. \<open>safeInteger\<close> is \<^verbatim>\<open>Number.isSafeInteger\<close>.
\<close>

fun bitLength :: "nat \<Rightarrow> nat" where
  "bitLength n = (if n = 0 then 0 else Suc (bitLength (n div 2)))"

declare bitLength.simps [simp del]

definition roundToDouble :: "int \<Rightarrow> int" where
  "roundToDouble n =
     (if \<bar>n\<bar> \<le> 2 ^ 53 then n
      else
        (let e = bitLength (nat \<bar>n\<bar>) - 53;
             q = \<bar>n\<bar> div 2 ^ e;
             r = \<bar>n\<bar> mod 2 ^ e
         in sgn n *
            (if 2 ^ (e - 1) < r then q + 1
             else if r = 2 ^ (e - 1) then (if even q then q else q + 1)
             else q) * 2 ^ e))"

definition numberAdd :: "int \<Rightarrow> int \<Rightarrow> int" where
  "numberAdd a b = roundToDouble (a + b)"

definition safeInteger :: "int \<Rightarrow> bool" where
  "safeInteger v = (\<bar>v\<bar> < 2 ^ 53)"


section \<open>The editor component (\<open>InstancesFullEditor/index.js\<close>)\<close>

text \<open>
  \<^verbatim>\<open>uiSettings\<close> is a plain JavaScript object that the component copies with the spread
  operator: a map from keys to values, where a missing key reads as \<^verbatim>\<open>undefined\<close> and
  \<^verbatim>\<open>!v\<close> negates the truthiness of \<^verbatim>\<open>v\<close>.
\<close>

datatype jsValue = JBool bool | JNum real | JStr string

type_synonym uiSettings = "string \<rightharpoonup> jsValue"

definition truthy :: "jsValue option \<Rightarrow> bool" where
  "truthy v =
     (case v of
        None \<Rightarrow> False
      | Some (JBool b) \<Rightarrow> b
      | Some (JNum n) \<Rightarrow> n \<noteq> 0
      | Some (JStr s) \<Rightarrow> s \<noteq> [])"

text \<open>
  The state is \<^verbatim>\<open>this.state\<close> (the fields the edit operations read or write), the
  container \<^verbatim>\<open>this.props.initialInstances\<close>, which the component mutates in place, and
  the objects it owns: \<^verbatim>\<open>this.instancesSelection\<close>, \<^verbatim>\<open>this.zOrderFinder\<close>, and of
  \<^verbatim>\<open>this.editor\<close> the highlighted instance and the number of forced remounts. The
  toolbar holds the two flags \<^verbatim>\<open>_updateToolbar\<close> computes from the history.
\<close>

record editorState =
  initialInstances :: sceneGraph
  instancesSelection :: instancesSelection
  zOrderFinder :: highestZOrderFinder
  selectedObjectName :: "string option"
  uiSettings :: uiSettings
  history :: historyState
  layerRemoveDialogOpen :: bool
  layerRemoved :: "string option"
  highlightedInstance :: "ref option"
  remounts :: nat
  toolbar :: "bool \<times> bool"

definition constructor :: "uiSettings \<Rightarrow> sceneGraph \<Rightarrow> editorState" where
  "constructor initialUiSettings g =
     \<lparr>initialInstances = g,
      instancesSelection = [],
      zOrderFinder = None,
      selectedObjectName = None,
      uiSettings = initialUiSettings,
      history = getHistoryInitialState g,
      layerRemoveDialogOpen = False,
      layerRemoved = None,
      highlightedInstance = None,
      remounts = 0,
      toolbar = (False, False)\<rparr>"

definition updateToolbar :: "editorState \<Rightarrow> editorState" where
  "updateToolbar s = s\<lparr>toolbar := (canUndo (history s), canRedo (history s))\<rparr>"

definition forceRemount :: "editorState \<Rightarrow> editorState" where
  "forceRemount s = s\<lparr>remounts := Suc (remounts s)\<rparr>"

text \<open>
  \<^verbatim>\<open>componentWillReceiveProps\<close> clears the selection when the layout, the instances
  container or the project of the next props is another object; \<open>propsChanged\<close> is that
  test.
\<close>

definition componentWillReceiveProps :: "bool \<Rightarrow> editorState \<Rightarrow> editorState" where
  "componentWillReceiveProps propsChanged s =
     (if propsChanged then s\<lparr>instancesSelection := clearSelection (instancesSelection s)\<rparr>
      else s)"

definition toggleWindowMask :: "editorState \<Rightarrow> editorState" where
  "toggleWindowMask s =
     s\<lparr>uiSettings :=
         (uiSettings s)(''windowMask'' \<mapsto> JBool (\<not> truthy (uiSettings s ''windowMask'')))\<rparr>"

definition toggleGrid :: "editorState \<Rightarrow> editorState" where
  "toggleGrid s =
     s\<lparr>uiSettings :=
         (uiSettings s)(''grid'' \<mapsto> JBool (\<not> truthy (uiSettings s ''grid'')),
                        ''snap'' \<mapsto> JBool (\<not> truthy (uiSettings s ''grid'')))\<rparr>"

definition setUiSettings :: "uiSettings \<Rightarrow> editorState \<Rightarrow> editorState" where
  "setUiSettings newSettings s = s\<lparr>uiSettings := uiSettings s ++ newSettings\<rparr>"

definition undo :: "editorState \<Rightarrow> editorState" where
  "undo s =
     (case historyUndo (history s) (initialInstances s) of
        (h, g) \<Rightarrow> updateToolbar (forceRemount (s\<lparr>history := h, initialInstances := g\<rparr>)))"

definition redo :: "editorState \<Rightarrow> editorState" where
  "redo s =
     (case historyRedo (history s) (initialInstances s) of
        (h, g) \<Rightarrow> updateToolbar (forceRemount (s\<lparr>history := h, initialInstances := g\<rparr>)))"

definition onObjectSelected :: "string option \<Rightarrow> editorState \<Rightarrow> editorState" where
  "onObjectSelected name s = s\<lparr>selectedObjectName := name\<rparr>"

text \<open>
  \<^verbatim>\<open>objectName || this.state.selectedObjectName\<close>: the argument is a string (\<^verbatim>\<open>''\<close> by
  default), the state field is \<^verbatim>\<open>null\<close> or a string. \<^verbatim>\<open>if (!newInstanceObjectName) return\<close>
  leaves when the result is \<^verbatim>\<open>null\<close> or the empty string.
\<close>

definition newInstanceObjectName :: "string \<Rightarrow> string option \<Rightarrow> string option" where
  "newInstanceObjectName objName selected = (if objName \<noteq> [] then Some objName else selected)"

definition falsy :: "string option \<Rightarrow> bool" where
  "falsy v = (case v of None \<Rightarrow> True | Some n \<Rightarrow> n = [])"

definition onAddInstance ::
  "nat \<Rightarrow> initialInstance \<Rightarrow> real \<Rightarrow> real \<Rightarrow> string \<Rightarrow> editorState \<Rightarrow> editorState" where
  "onAddInstance maxDepth dflt x y objName s =
     (if falsy (newInstanceObjectName objName (selectedObjectName s)) then s
      else
        (case insertNewInitialInstance dflt (initialInstances s) of
           (r, g0) \<Rightarrow>
             let g1 = setObjectName r (the (newInstanceObjectName objName (selectedObjectName s))) g0;
                 g2 = setX r x g1;
                 g3 = setY r y g2;
                 f = iterateOverInstances visit g3 (zOrderFinder s);
                 g4 = setZOrder r (numberAdd (getHighestZOrder f) 1) g3
             in updateToolbar
                  (s\<lparr>initialInstances := g4,
                     zOrderFinder := f,
                     selectedObjectName := None,
                     history := saveToHistory maxDepth (history s) g4\<rparr>)))"

text \<open>
  The z-orders \<^verbatim>\<open>_onAddInstance\<close> can meet: those of the instances in the graph, that of
  the default-valued instance, and the value the finder holds. They are safe when all are
  safe integers.
\<close>

definition safeZOrders :: "initialInstance \<Rightarrow> editorState \<Rightarrow> bool" where
  "safeZOrders dflt s =
     (safeInteger (zOrder dflt) \<and>
      list_all safeInteger (existingZOrders (initialInstances s)) \<and>
      (case zOrderFinder s of None \<Rightarrow> True | Some h \<Rightarrow> safeInteger h))"

definition onInstancesSelected :: "ref list \<Rightarrow> editorState \<Rightarrow> editorState" where
  "onInstancesSelected instances s = updateToolbar s"

definition onInstancesMoved :: "nat \<Rightarrow> ref list \<Rightarrow> editorState \<Rightarrow> editorState" where
  "onInstancesMoved maxDepth instances s =
     s\<lparr>history := saveToHistory maxDepth (history s) (initialInstances s)\<rparr>"

text \<open>
  \<^verbatim>\<open>_onInstancesModified\<close> only calls \<^verbatim>\<open>this.forceUpdate()\<close>, a re-render; its body ends
  with the comment \<^verbatim>\<open>//Save for redo with debounce (and cancel on unmount)?????\<close>.
\<close>

definition onInstancesModified :: "ref list \<Rightarrow> editorState \<Rightarrow> editorState" where
  "onInstancesModified instances s = s"

text \<open>
  Modelled from the spec: the properties panel (\<^verbatim>\<open>InstancePropertiesEditor\<close>) is not among
  the sources. Section 4.3, \<^verbatim>\<open>modifyInstances(instances, propertyEdits)\<close>: it mutates the
  given instances and then reports them through \<^verbatim>\<open>onInstancesModified\<close>.
\<close>

definition modifyInstances :: "ref list \<Rightarrow> (initialInstance \<Rightarrow> initialInstance) \<Rightarrow> editorState \<Rightarrow> editorState" where
  "modifyInstances instances propertyEdits s =
     onInstancesModified instances
       (s\<lparr>initialInstances :=
            fold (\<lambda>r. updateInstance r propertyEdits) instances (initialInstances s)\<rparr>)"

text \<open>
  \<^verbatim>\<open>_onSelectInstances(instances, centerView = true)\<close> replaces the selection; centring
  the view acts on the canvas only.
\<close>

definition onSelectInstances :: "ref list \<Rightarrow> editorState \<Rightarrow> editorState" where
  "onSelectInstances instances s =
     updateToolbar
       (s\<lparr>instancesSelection := fold selectInstance instances (clearSelection (instancesSelection s))\<rparr>)"

text \<open>
  \<^verbatim>\<open>_onRemoveLayer\<close> opens the dialog and stores the closure that the dialog calls when it
  closes, with \<^verbatim>\<open>doRemove\<close> and \<^verbatim>\<open>newLayer\<close> (\<^verbatim>\<open>null\<close> to delete the instances of the
  layer, a layer name to move them there). The callback \<^verbatim>\<open>done\<close> belongs to the layers
  list and acts on the layout, which is outside this state.
\<close>

definition onRemoveLayer :: "string \<Rightarrow> editorState \<Rightarrow> editorState" where
  "onRemoveLayer layer s = s\<lparr>layerRemoveDialogOpen := True, layerRemoved := Some layer\<rparr>"

definition onCloseLayerRemoveDialog ::
  "string \<Rightarrow> bool \<Rightarrow> string option \<Rightarrow> editorState \<Rightarrow> editorState" where
  "onCloseLayerRemoveDialog layer doRemove newLayer s =
     updateToolbar
       (forceRemount
          (s\<lparr>layerRemoveDialogOpen := False,
             initialInstances :=
               (if doRemove then
                  (case newLayer of
                     None \<Rightarrow> removeAllInstancesOnLayer layer (initialInstances s)
                   | Some target \<Rightarrow> moveInstancesToLayer layer target (initialInstances s))
                else initialInstances s)\<rparr>))"

definition removeLayer :: "string \<Rightarrow> bool \<Rightarrow> string option \<Rightarrow> editorState \<Rightarrow> editorState" where
  "removeLayer layer doRemove newLayer s =
     onCloseLayerRemoveDialog layer doRemove newLayer (onRemoveLayer layer s)"

definition deleteSelection :: "nat \<Rightarrow> editorState \<Rightarrow> editorState" where
  "deleteSelection maxDepth s =
     (let selectedInstances = getSelectedInstances (instancesSelection s);
          g = fold removeInstance selectedInstances (initialInstances s)
      in updateToolbar
           (s\<lparr>initialInstances := g,
              instancesSelection := clearSelection (instancesSelection s),
              highlightedInstance := None,
              history := saveToHistory maxDepth (history s) g\<rparr>))"


section \<open>Example sessions\<close>

text \<open>
  Concrete sessions on which the operations are evaluated: an empty scene, the scene of
  the scenario in section 8 of the specification (\<open>A\<close> with z-order 1 and \<open>B\<close> with
  z-order 3, both on layer \<open>L1\<close>), and a scene whose only instance has a negative
  z-order. In all of them the container hands out \<open>defaultInstance\<close>: no name, the
  origin, z-order 0, the base layer. In \<open>finderUsed\<close> two instances were added to the
  scenario scene and deleted again, so the graph is the scenario's and the finder still
  holds 4.
\<close>

definition defaultInstance :: initialInstance where
  "defaultInstance =
     \<lparr>objectName = [], xPos = 0, yPos = 0, zOrder = 0, layerName = []\<rparr>"

definition emptyGraph :: sceneGraph where
  "emptyGraph = \<lparr>entries = [], nextRef = 0\<rparr>"

definition sessionStart :: editorState where
  "sessionStart = constructor Map.empty emptyGraph"

definition heroSelected :: editorState where
  "heroSelected = onSelectInstances [0] (onAddInstance 10 defaultInstance 10 20 ''Hero'' sessionStart)"

definition scenarioGraph :: sceneGraph where
  "scenarioGraph =
     \<lparr>entries =
        [(0, \<lparr>objectName = ''A'', xPos = 0, yPos = 0, zOrder = 1, layerName = ''L1''\<rparr>),
         (1, \<lparr>objectName = ''B'', xPos = 5, yPos = 5, zOrder = 3, layerName = ''L1''\<rparr>)],
      nextRef = 2\<rparr>"

definition scenarioStart :: editorState where
  "scenarioStart = constructor Map.empty scenarioGraph"

definition negativeGraph :: sceneGraph where
  "negativeGraph =
     \<lparr>entries =
        [(0, \<lparr>objectName = ''Rock'', xPos = 0, yPos = 0, zOrder = - 5, layerName = []\<rparr>)],
      nextRef = 1\<rparr>"

definition negativeStart :: editorState where
  "negativeStart = constructor Map.empty negativeGraph"

definition finderUsed :: editorState where
  "finderUsed =
     deleteSelection 10
       (onSelectInstances [2, 3]
          (onAddInstance 10 defaultInstance 0 0 ''D''
             (onAddInstance 10 defaultInstance 7 8 ''C'' scenarioStart)))"

definition rockChosen :: editorState where
  "rockChosen = onObjectSelected (Some ''Rock'') scenarioStart"


section \<open>The z-order finder\<close>

lemma fold_visit_Some: "fold visit is (Some h) = Some (fold max (map zOrder is) h)"
  by (induction "is" arbitrary: h) (simp_all add: visit_def max.commute)

lemma fold_visit_None:
  assumes "is \<noteq> []"
  shows "fold visit is None = Some (Max (set (map zOrder is)))"
proof -
  from assms obtain i js where eq: "is = i # js" by (cases "is") auto
  have "Max (set (zOrder i # map zOrder js)) = fold max (map zOrder js) (zOrder i)"
    by (rule Max.set_eq_fold)
  then show ?thesis
    by (simp add: eq visit_def fold_visit_Some)
qed

lemma fold_max_ge_start: "h \<le> fold max zs (h::int)"
proof (induction zs arbitrary: h)
  case Nil
  show ?case by simp
next
  case (Cons z zs)
  have "h \<le> max z h" by simp
  also have "max z h \<le> fold max zs (max z h)" by (rule Cons.IH)
  finally show ?case by simp
qed

lemma fold_max_ge_elem: "z \<in> set zs \<Longrightarrow> z \<le> fold max zs (h::int)"
proof (induction zs arbitrary: h)
  case Nil
  then show ?case by simp
next
  case (Cons a zs)
  show ?case
  proof (cases "z = a")
    case True
    have "a \<le> max a h" by simp
    also have "max a h \<le> fold max zs (max a h)" by (rule fold_max_ge_start)
    finally show ?thesis using True by simp
  next
    case False
    with Cons.prems have "z \<in> set zs" by simp
    then show ?thesis using Cons.IH by simp
  qed
qed

lemma highest_ge_visited:
  assumes "i \<in> set is"
  shows "zOrder i \<le> getHighestZOrder (fold visit is f)"
proof (cases f)
  case None
  from assms have ne: "is \<noteq> []" by auto
  from assms have "zOrder i \<in> set (map zOrder is)" by simp
  then have "zOrder i \<le> Max (set (map zOrder is))" by (intro Max_ge) auto
  then show ?thesis by (simp add: None fold_visit_None[OF ne] getHighestZOrder_def)
next
  case (Some h)
  from assms have "zOrder i \<in> set (map zOrder is)" by simp
  then show ?thesis
    by (simp only: Some fold_visit_Some getHighestZOrder_def option.case fold_max_ge_elem)
qed

lemma fold_visit_highest:
  assumes "is \<noteq> []"
  shows "fold visit is f = Some (Max (set (map zOrder is) \<union> set_option f))"
proof (cases f)
  case None
  then show ?thesis by (simp add: fold_visit_None[OF assms])
next
  case (Some h)
  have "Max (set (h # map zOrder is)) = fold max (map zOrder is) h"
    by (rule Max.set_eq_fold)
  then show ?thesis by (simp add: Some fold_visit_Some Un_commute)
qed

section \<open>Number addition on safe integers\<close>

lemma numberAdd_safe:
  assumes "safeInteger h"
  shows "numberAdd h 1 = h + 1"
proof -
  from assms have "\<bar>h + 1\<bar> \<le> 2 ^ 53"
    by (simp add: safeInteger_def)
  then show ?thesis
    by (simp add: numberAdd_def roundToDouble_def)
qed

text \<open>
  Beyond the safe integers the addition stops being exact, which is why the statement
  about the new z-order asks for safe z-orders.
\<close>

lemma numberAdd_beyond_safe: "numberAdd (2 ^ 53) 1 = 2 ^ 53"
  by (simp add: numberAdd_def roundToDouble_def Let_def bitLength.simps)

lemma safeInteger_Max:
  assumes "finite A" and "A \<noteq> {}" and "\<forall>v \<in> A. safeInteger v"
  shows "safeInteger (Max A)"
  using assms Max_in[of A] by blast

section \<open>Adding an instance to a well-formed graph\<close>

lemma updateInstance_fresh:
  "list_all (\<lambda>(k, i). k < r) es \<Longrightarrow>
   map (\<lambda>(k, i). if k = r then (k, f i) else (k, i)) es = (es :: (nat \<times> initialInstance) list)"
  by (induction es) auto

lemma map_of_fresh:
  "list_all (\<lambda>(k, i). k < r) es \<Longrightarrow> map_of (es @ [(r::nat, v)]) r = Some v"
  by (induction es) auto

lemma updateInstance_last:
  assumes "list_all (\<lambda>(k, i). k < r) es" and "entries g = es @ [(r, v)]"
  shows "entries (updateInstance r f g) = es @ [(r, f v)]"
  using assms by (simp add: updateInstance_def updateInstance_fresh)

lemma onAddInstance_result:
  assumes wf: "wellFormed (initialInstances s)"
    and name: "newInstanceObjectName objName (selectedObjectName s) = Some n"
    and ne: "n \<noteq> []"
  shows "entries (initialInstances (onAddInstance m dflt x y objName s)) =
         entries (initialInstances s) @
           [(nextRef (initialInstances s),
             dflt\<lparr>objectName := n, xPos := x, yPos := y,
                  zOrder := numberAdd (getHighestZOrder
                    (fold visit
                       (snapshot (initialInstances s) @
                          [dflt\<lparr>objectName := n, xPos := x, yPos := y\<rparr>])
                       (zOrderFinder s))) 1\<rparr>)]"
    and "zOrderFinder (onAddInstance m dflt x y objName s) =
         fold visit
           (snapshot (initialInstances s) @ [dflt\<lparr>objectName := n, xPos := x, yPos := y\<rparr>])
           (zOrderFinder s)"
proof -
  define g where "g = initialInstances s"
  define r where "r = nextRef g"
  define g0 where "g0 = snd (insertNewInitialInstance dflt g)"
  define g1 where "g1 = setObjectName r n g0"
  define g2 where "g2 = setX r x g1"
  define g3 where "g3 = setY r y g2"
  define f where "f = iterateOverInstances visit g3 (zOrderFinder s)"
  define g4 where "g4 = setZOrder r (numberAdd (getHighestZOrder f) 1) g3"
  from wf have fresh: "list_all (\<lambda>(k, i). k < r) (entries g)"
    by (simp add: wellFormed_def g_def r_def)
  have e0: "entries g0 = entries g @ [(r, dflt)]"
    by (simp add: g0_def insertNewInitialInstance_def r_def)
  have e1: "entries g1 = entries g @ [(r, dflt\<lparr>objectName := n\<rparr>)]"
    unfolding g1_def setObjectName_def by (rule updateInstance_last[OF fresh e0])
  have e2: "entries g2 = entries g @ [(r, dflt\<lparr>objectName := n, xPos := x\<rparr>)]"
    unfolding g2_def setX_def using updateInstance_last[OF fresh e1] by simp
  have e3: "entries g3 = entries g @ [(r, dflt\<lparr>objectName := n, xPos := x, yPos := y\<rparr>)]"
    unfolding g3_def setY_def using updateInstance_last[OF fresh e2] by simp
  have e4: "entries g4 = entries g @
      [(r, dflt\<lparr>objectName := n, xPos := x, yPos := y,
                zOrder := numberAdd (getHighestZOrder f) 1\<rparr>)]"
    unfolding g4_def setZOrder_def using updateInstance_last[OF fresh e3] by simp
  have fv: "f = fold visit (snapshot g @ [dflt\<lparr>objectName := n, xPos := x, yPos := y\<rparr>])
      (zOrderFinder s)"
    by (simp add: f_def iterateOverInstances_def e3 snapshot_def)
  from name ne have nf: "\<not> falsy (newInstanceObjectName objName (selectedObjectName s))"
    by (simp add: falsy_def)
  have res: "initialInstances (onAddInstance m dflt x y objName s) = g4"
      "zOrderFinder (onAddInstance m dflt x y objName s) = f"
    using nf name
    by (simp_all add: onAddInstance_def updateToolbar_def Let_def g4_def f_def g3_def g2_def
        g1_def g0_def r_def g_def insertNewInitialInstance_def)
  show "entries (initialInstances (onAddInstance m dflt x y objName s)) =
         entries (initialInstances s) @
           [(nextRef (initialInstances s),
             dflt\<lparr>objectName := n, xPos := x, yPos := y,
                  zOrder := numberAdd (getHighestZOrder
                    (fold visit
                       (snapshot (initialInstances s) @
                          [dflt\<lparr>objectName := n, xPos := x, yPos := y\<rparr>])
                       (zOrderFinder s))) 1\<rparr>)]"
    using res(1) e4 fv by (simp add: g_def r_def)
  show "zOrderFinder (onAddInstance m dflt x y objName s) =
         fold visit
           (snapshot (initialInstances s) @ [dflt\<lparr>objectName := n, xPos := x, yPos := y\<rparr>])
           (zOrderFinder s)"
    using res(2) fv by (simp add: g_def)
qed

lemma onAddInstance_getInstance:
  assumes wf: "wellFormed (initialInstances s)"
    and name: "newInstanceObjectName objName (selectedObjectName s) = Some n"
    and ne: "n \<noteq> []"
  shows "getInstance (initialInstances (onAddInstance m dflt x y objName s))
           (nextRef (initialInstances s)) =
         Some (dflt\<lparr>objectName := n, xPos := x, yPos := y,
                  zOrder := numberAdd (getHighestZOrder
                    (fold visit
                       (snapshot (initialInstances s) @
                          [dflt\<lparr>objectName := n, xPos := x, yPos := y\<rparr>])
                       (zOrderFinder s))) 1\<rparr>)"
proof -
  from wf have fresh:
    "list_all (\<lambda>(k, i). k < nextRef (initialInstances s)) (entries (initialInstances s))"
    by (simp add: wellFormed_def)
  show ?thesis
    unfolding getInstance_def onAddInstance_result(1)[OF wf name ne]
    by (rule map_of_fresh[OF fresh])
qed

lemma existingZOrders_snapshot: "existingZOrders g = map zOrder (snapshot g)"
  by (simp add: existingZOrders_def snapshot_def case_prod_unfold)


section \<open>Removing a list of instances\<close>

lemma fold_removeInstance_entries:
  "entries (fold removeInstance rs g) = filter (\<lambda>(k, i). k \<notin> set rs) (entries g)"
proof (induction rs arbitrary: g)
  case Nil
  show ?case by simp
next
  case (Cons r rs)
  have "entries (fold removeInstance (r # rs) g) =
        filter (\<lambda>(k, i). k \<notin> set rs) (entries (removeInstance r g))"
    by (simp add: Cons.IH)
  also have "\<dots> = filter (\<lambda>(k, i). k \<notin> set (r # rs)) (entries g)"
    by (auto simp add: removeInstance_def intro: filter_cong)
  finally show ?case .
qed

lemma fold_removeInstance_nextRef: "nextRef (fold removeInstance rs g) = nextRef g"
  by (induction rs arbitrary: g) (simp_all add: removeInstance_def)


section \<open>Well-formedness is kept by every operation\<close>

text \<open>
  A graph is well formed when every reference in it was issued by its counter. The
  container starts that way and every operation of the editor keeps it so; the theorems
  about \<^verbatim>\<open>_onAddInstance\<close> that look the new instance up by its reference assume it.
\<close>

lemma wellFormed_updateInstance: "wellFormed g \<Longrightarrow> wellFormed (updateInstance r f g)"
  by (auto simp add: wellFormed_def updateInstance_def list_all_iff split: if_splits)

lemma wellFormed_insert: "wellFormed g \<Longrightarrow> wellFormed (snd (insertNewInitialInstance dflt g))"
  by (auto simp add: wellFormed_def insertNewInitialInstance_def list_all_iff)

lemma wellFormed_removeInstance: "wellFormed g \<Longrightarrow> wellFormed (removeInstance r g)"
  by (auto simp add: wellFormed_def removeInstance_def list_all_iff)

lemma wellFormed_fold_removeInstance: "wellFormed g \<Longrightarrow> wellFormed (fold removeInstance rs g)"
  by (induction rs arbitrary: g) (simp_all add: wellFormed_removeInstance)

lemma wellFormed_fold_updateInstance:
  "wellFormed g \<Longrightarrow> wellFormed (fold (\<lambda>r. updateInstance r f) rs g)"
  by (induction rs arbitrary: g) (simp_all add: wellFormed_updateInstance)

lemma wellFormed_removeAllInstancesOnLayer:
  "wellFormed g \<Longrightarrow> wellFormed (removeAllInstancesOnLayer l g)"
  by (auto simp add: wellFormed_def removeAllInstancesOnLayer_def list_all_iff)

lemma wellFormed_moveInstancesToLayer:
  "wellFormed g \<Longrightarrow> wellFormed (moveInstancesToLayer a b g)"
  by (auto simp add: wellFormed_def moveInstancesToLayer_def list_all_iff split: if_splits)

lemma wellFormed_restore: "wellFormed (restore e g)"
  by (auto simp add: wellFormed_def restore_def list_all_iff dest!: set_zip_leftD)

lemma wellFormed_onAddInstance:
  assumes "wellFormed (initialInstances s)"
  shows "wellFormed (initialInstances (onAddInstance m dflt x y objName s))"
proof (cases "falsy (newInstanceObjectName objName (selectedObjectName s))")
  case True
  with assms show ?thesis by (simp add: onAddInstance_def)
next
  case False
  have "wellFormed (snd (insertNewInitialInstance dflt (initialInstances s)))"
    using assms by (rule wellFormed_insert)
  then show ?thesis
    using False
    by (cases "insertNewInitialInstance dflt (initialInstances s)")
      (simp add: onAddInstance_def updateToolbar_def Let_def setObjectName_def setX_def
        setY_def setZOrder_def wellFormed_updateInstance)
qed

lemma wellFormed_deleteSelection:
  "wellFormed (initialInstances s) \<Longrightarrow> wellFormed (initialInstances (deleteSelection m s))"
  by (simp add: deleteSelection_def updateToolbar_def Let_def wellFormed_fold_removeInstance)

lemma wellFormed_removeLayer:
  "wellFormed (initialInstances s) \<Longrightarrow>
   wellFormed (initialInstances (removeLayer layer doRemove newLayer s))"
  by (simp add: removeLayer_def onCloseLayerRemoveDialog_def onRemoveLayer_def
      updateToolbar_def forceRemount_def wellFormed_removeAllInstancesOnLayer
      wellFormed_moveInstancesToLayer split: option.split)

lemma wellFormed_modifyInstances:
  "wellFormed (initialInstances s) \<Longrightarrow>
   wellFormed (initialInstances (modifyInstances rs f s))"
  by (simp add: modifyInstances_def onInstancesModified_def wellFormed_fold_updateInstance)

lemma wellFormed_undo:
  "wellFormed (initialInstances s) \<Longrightarrow> wellFormed (initialInstances (undo s))"
  by (simp add: undo_def historyUndo_def updateToolbar_def forceRemount_def wellFormed_restore)

lemma wellFormed_redo:
  "wellFormed (initialInstances s) \<Longrightarrow> wellFormed (initialInstances (redo s))"
  by (simp add: redo_def historyRedo_def updateToolbar_def forceRemount_def wellFormed_restore)


section \<open>Evaluation of the example sessions\<close>

lemmas graph_defs =
  insertNewInitialInstance_def updateInstance_def setObjectName_def setX_def setY_def
  setZOrder_def removeInstance_def removeAllInstancesOnLayer_def moveInstancesToLayer_def
  iterateOverInstances_def getInstance_def visit_def getHighestZOrder_def defaultInstance_def
  numberAdd_def roundToDouble_def

lemmas history_defs =
  snapshot_def restore_def getHistoryInitialState_def evictOldest_def saveToHistory_def
  canUndo_def canRedo_def historyUndo_def historyRedo_def

lemmas editor_defs =
  constructor_def updateToolbar_def forceRemount_def undo_def redo_def
  newInstanceObjectName_def falsy_def onAddInstance_def onSelectInstances_def
  getSelectedInstances_def clearSelection_def selectInstance_def
  onRemoveLayer_def onCloseLayerRemoveDialog_def removeLayer_def deleteSelection_def
  onInstancesModified_def modifyInstances_def

lemmas example_defs =
  emptyGraph_def sessionStart_def heroSelected_def scenarioGraph_def scenarioStart_def
  negativeGraph_def negativeStart_def

section \<open>Undo and redo\<close>

lemma undo_selection: "instancesSelection (undo s) = instancesSelection s"
  by (simp add: undo_def updateToolbar_def forceRemount_def split: prod.split)

lemma redo_selection: "instancesSelection (redo s) = instancesSelection s"
  by (simp add: redo_def updateToolbar_def forceRemount_def split: prod.split)

lemma heroSelected_graph:
  "initialInstances heroSelected =
     \<lparr>entries = [(0, \<lparr>objectName = ''Hero'', xPos = 10, yPos = 20, zOrder = 1, layerName = []\<rparr>)],
      nextRef = 1\<rparr>"
  by (simp add: example_defs editor_defs graph_defs history_defs Let_def)

lemma heroSelected_history:
  "history heroSelected =
     \<lparr>past = [[]],
      present = [\<lparr>objectName = ''Hero'', xPos = 10, yPos = 20, zOrder = 1, layerName = []\<rparr>],
      future = []\<rparr>"
  by (simp add: example_defs editor_defs graph_defs history_defs Let_def)

lemma heroSelected_selection: "instancesSelection heroSelected = [0]"
  by (simp add: example_defs editor_defs graph_defs history_defs Let_def)

text \<open>
  Claim C1 says that after \<^verbatim>\<open>undo()\<close> or \<^verbatim>\<open>redo()\<close> the selection is cleared. The
  component's \<^verbatim>\<open>undo\<close> and \<^verbatim>\<open>redo\<close> replace the history, force a remount of the
  renderers ("to avoid keeping any references to existing instances") and update the
  toolbar; neither touches \<^verbatim>\<open>this.instancesSelection\<close>. Evaluated on the session where
  \<open>Hero\<close> was added and selected: after \<open>undo\<close>, and again after \<open>redo\<close>, the selection
  still holds reference 0, which no longer names an instance of the restored graph.
\<close>

theorem undo_redo_keep_selection:
  "getSelectedInstances (instancesSelection heroSelected) = [0] \<and>
   getSelectedInstances (instancesSelection (undo heroSelected)) = [0] \<and>
   getInstance (initialInstances (undo heroSelected)) 0 = None \<and>
   getSelectedInstances (instancesSelection (redo (undo heroSelected))) = [0] \<and>
   getInstance (initialInstances (redo (undo heroSelected))) 0 = None"
  by (simp add: undo_def redo_def historyUndo_def historyRedo_def restore_def
      updateToolbar_def forceRemount_def getSelectedInstances_def getInstance_def
      heroSelected_graph heroSelected_history heroSelected_selection)

section \<open>Deleting the selection\<close>

text \<open>
  Claim C2 as stated, at the fresh session on the empty scene with history depth 10: the
  selection is empty, yet \<^verbatim>\<open>deleteSelection\<close> makes the past one entry longer.
\<close>

theorem deleteSelection_empty_counterexample:
  "\<not> (getSelectedInstances (instancesSelection sessionStart) = [] \<longrightarrow>
      length (past (history (deleteSelection 10 sessionStart))) =
      length (past (history sessionStart)))"
  by (simp add: example_defs editor_defs history_defs Let_def)

text \<open>
  Claim C2, amended: \<^verbatim>\<open>deleteSelection\<close> has no guard on the selection. With an empty
  selection it leaves the scene graph and the selection as they were, and commits to the
  history like any other delete: the new history is \<open>saveToHistory\<close> of the old one and
  the unchanged graph, so the past grows by one entry, up to the depth.
\<close>

theorem deleteSelection_empty_commits:
  assumes "getSelectedInstances (instancesSelection s) = []"
  shows "initialInstances (deleteSelection maxDepth s) = initialInstances s \<and>
         getSelectedInstances (instancesSelection (deleteSelection maxDepth s)) = [] \<and>
         history (deleteSelection maxDepth s) =
           saveToHistory maxDepth (history s) (initialInstances s) \<and>
         length (past (history (deleteSelection maxDepth s))) =
           min maxDepth (Suc (length (past (history s))))"
  using assms
  by (simp add: deleteSelection_def getSelectedInstances_def clearSelection_def
      updateToolbar_def saveToHistory_def evictOldest_def Let_def)

text \<open>
  The amended claim at the fresh session on the empty scene.
\<close>

theorem deleteSelection_empty_commits_witness:
  "getSelectedInstances (instancesSelection sessionStart) = [] \<and>
   initialInstances (deleteSelection 10 sessionStart) = emptyGraph \<and>
   history (deleteSelection 10 sessionStart) = \<lparr>past = [[]], present = [], future = []\<rparr> \<and>
   length (past (history (deleteSelection 10 sessionStart))) = 1"
proof -
  have h: "getSelectedInstances (instancesSelection sessionStart) = []"
    by (simp add: example_defs constructor_def getSelectedInstances_def)
  show ?thesis
    using h deleteSelection_empty_commits[OF h, of 10]
    by (simp add: example_defs constructor_def history_defs)
qed

section \<open>Removing a layer\<close>

text \<open>
  Claim C3 as stated, at the scenario scene: after removing layer \<open>L1\<close>, with its
  instances deleted or moved to \<open>L2\<close>, the history is not the one a commit of the new
  graph would give; the past is still empty although the instances are gone.
\<close>

theorem removeLayer_commit_counterexample:
  "\<not> (history (removeLayer ''L1'' True None scenarioStart) =
        saveToHistory 10 (history scenarioStart)
          (initialInstances (removeLayer ''L1'' True None scenarioStart))) \<and>
   \<not> (history (removeLayer ''L1'' True (Some ''L2'') scenarioStart) =
        saveToHistory 10 (history scenarioStart)
          (initialInstances (removeLayer ''L1'' True (Some ''L2'') scenarioStart))) \<and>
   entries (initialInstances (removeLayer ''L1'' True None scenarioStart)) = [] \<and>
   past (history (removeLayer ''L1'' True None scenarioStart)) = []"
  by (simp add: example_defs editor_defs history_defs graph_defs)

text \<open>
  Claim C3, amended: closing the layer removal dialog removes the instances of the layer
  (\<^verbatim>\<open>newLayer === null\<close>) or moves them to the target layer, closes the dialog, forces
  a remount and updates the toolbar from the history, and leaves the history untouched,
  whatever the answer of the dialog: no commit is made.
\<close>

theorem removeLayer_history_unchanged:
  "history (removeLayer layer doRemove newLayer s) = history s \<and>
   initialInstances (removeLayer layer True None s) =
     removeAllInstancesOnLayer layer (initialInstances s) \<and>
   initialInstances (removeLayer layer True (Some target) s) =
     moveInstancesToLayer layer target (initialInstances s) \<and>
   initialInstances (removeLayer layer False newLayer s) = initialInstances s \<and>
   remounts (removeLayer layer doRemove newLayer s) = Suc (remounts s) \<and>
   toolbar (removeLayer layer doRemove newLayer s) = (canUndo (history s), canRedo (history s)) \<and>
   layerRemoveDialogOpen (removeLayer layer doRemove newLayer s) = False"
  by (simp add: removeLayer_def onCloseLayerRemoveDialog_def onRemoveLayer_def
      updateToolbar_def forceRemount_def)

section \<open>Z-order of a new instance\<close>

text \<open>
  Claim C4 as stated, at the scene whose only instance has z-order \<open>-5\<close>, a finder that
  has visited nothing and a container whose default z-order is 0: the new instance gets
  z-order 1, not \<open>-5 + 1\<close>. The traversal runs after \<^verbatim>\<open>insertNewInitialInstance\<close>, so
  it also visits the new instance with its default z-order.
\<close>

theorem addInstance_zOrder_counterexample:
  "\<not> (map_option zOrder
        (getInstance
           (initialInstances (onAddInstance 10 defaultInstance 1 2 ''Hero'' negativeStart))
           (nextRef (initialInstances negativeStart))) =
      Some (Max (set (existingZOrders (initialInstances negativeStart))) + 1))"
  by (simp add: example_defs editor_defs graph_defs history_defs existingZOrders_def Let_def)

text \<open>
  Claim C4, amended: on a well-formed graph with safe z-orders a successful
  \<^verbatim>\<open>_onAddInstance\<close> creates the default-valued instance with the effective object name
  at the given position, and its z-order is one more than the highest z-order the finder
  reports after the traversal. That highest z-order is the maximum of the default z-order
  of the instance just inserted, the z-orders of all instances that existed before, and
  the value the finder held from earlier traversals, if any. So the new z-order is
  strictly greater than the z-order of every instance that existed before, on any layer,
  and than the default z-order.
\<close>

theorem addInstance_zOrder_above_existing:
  assumes wf: "wellFormed (initialInstances s)"
    and name: "newInstanceObjectName objName (selectedObjectName s) = Some n"
    and ne: "n \<noteq> []"
    and safe: "safeZOrders dflt s"
  shows "\<exists>z. getInstance (initialInstances (onAddInstance maxDepth dflt x y objName s))
                (nextRef (initialInstances s)) =
              Some (dflt\<lparr>objectName := n, xPos := x, yPos := y, zOrder := z\<rparr>) \<and>
             z = getHighestZOrder (zOrderFinder (onAddInstance maxDepth dflt x y objName s)) + 1 \<and>
             z = Max (insert (zOrder dflt)
                       (set (existingZOrders (initialInstances s)) \<union>
                        set_option (zOrderFinder s))) + 1 \<and>
             (\<forall>z' \<in> set (existingZOrders (initialInstances s)). z' < z) \<and>
             zOrder dflt < z"
proof -
  define new where "new = dflt\<lparr>objectName := n, xPos := x, yPos := y\<rparr>"
  define visited where "visited = snapshot (initialInstances s) @ [new]"
  define A where
    "A = insert (zOrder dflt)
           (set (existingZOrders (initialInstances s)) \<union> set_option (zOrderFinder s))"
  define h where "h = Max A"
  have fin: "finite A" and nonempty: "A \<noteq> {}"
    by (simp_all add: A_def)
  have "visited \<noteq> []" by (simp add: visited_def)
  then have "fold visit visited (zOrderFinder s) =
      Some (Max (set (map zOrder visited) \<union> set_option (zOrderFinder s)))"
    by (rule fold_visit_highest)
  moreover have "set (map zOrder visited) \<union> set_option (zOrderFinder s) = A"
    by (auto simp add: visited_def new_def A_def existingZOrders_snapshot)
  ultimately have trav: "fold visit visited (zOrderFinder s) = Some h"
    by (simp add: h_def)
  have finder: "zOrderFinder (onAddInstance maxDepth dflt x y objName s) = Some h"
    using onAddInstance_result(2)[OF wf name ne, of maxDepth dflt x y] trav
    by (simp add: visited_def new_def)
  have "\<forall>v \<in> A. safeInteger v"
    using safe
    by (auto simp add: safeZOrders_def A_def list_all_iff split: option.splits)
  with fin nonempty have "safeInteger h"
    unfolding h_def by (rule safeInteger_Max)
  then have exact: "numberAdd h 1 = h + 1" by (rule numberAdd_safe)
  have a: "getInstance (initialInstances (onAddInstance maxDepth dflt x y objName s))
          (nextRef (initialInstances s)) =
        Some (dflt\<lparr>objectName := n, xPos := x, yPos := y, zOrder := h + 1\<rparr>)"
    using onAddInstance_getInstance[OF wf name ne, of maxDepth dflt x y] trav exact
    by (simp add: visited_def new_def getHighestZOrder_def)
  have b: "h + 1 = getHighestZOrder (zOrderFinder (onAddInstance maxDepth dflt x y objName s)) + 1"
    by (simp add: finder getHighestZOrder_def)
  have c: "h + 1 = Max (insert (zOrder dflt)
                       (set (existingZOrders (initialInstances s)) \<union>
                        set_option (zOrderFinder s))) + 1"
    by (simp add: h_def A_def)
  have d: "\<forall>z' \<in> set (existingZOrders (initialInstances s)). z' < h + 1"
  proof
    fix z' assume "z' \<in> set (existingZOrders (initialInstances s))"
    then have "z' \<in> A" by (simp add: A_def)
    with fin have "z' \<le> h" unfolding h_def by (rule Max_ge)
    then show "z' < h + 1" by simp
  qed
  have e: "zOrder dflt < h + 1"
  proof -
    have "zOrder dflt \<in> A" by (simp add: A_def)
    with fin have "zOrder dflt \<le> h" unfolding h_def by (rule Max_ge)
    then show ?thesis by simp
  qed
  show ?thesis
    by (rule exI[of _ "h + 1"]) (intro conjI a b c d e)
qed

lemma finderUsed_state:
  "initialInstances finderUsed = scenarioGraph\<lparr>nextRef := 4\<rparr>"
  "zOrderFinder finderUsed = Some 4"
  "selectedObjectName finderUsed = None"
  by (simp_all add: finderUsed_def example_defs editor_defs graph_defs history_defs Let_def)

text \<open>
  The amended claim on the scenario of section 8, with default z-order 0: with \<open>A\<close> at 1
  and \<open>B\<close> at 3 and a finder that has visited nothing, the new instance \<open>C\<close> gets
  z-order 4; on the same graph with the finder holding 4, the new instance gets 5.
\<close>

theorem addInstance_zOrder_above_existing_witness:
  "wellFormed (initialInstances scenarioStart) \<and>
   newInstanceObjectName ''C'' (selectedObjectName scenarioStart) = Some ''C'' \<and>
   ''C'' \<noteq> [] \<and>
   safeZOrders defaultInstance scenarioStart \<and>
   getInstance (initialInstances (onAddInstance 10 defaultInstance 7 8 ''C'' scenarioStart)) 2 =
     Some \<lparr>objectName = ''C'', xPos = 7, yPos = 8, zOrder = 4, layerName = []\<rparr> \<and>
   getHighestZOrder (zOrderFinder (onAddInstance 10 defaultInstance 7 8 ''C'' scenarioStart)) = 3 \<and>
   wellFormed (initialInstances finderUsed) \<and>
   newInstanceObjectName ''E'' (selectedObjectName finderUsed) = Some ''E'' \<and>
   safeZOrders defaultInstance finderUsed \<and>
   existingZOrders (initialInstances finderUsed) = [1, 3] \<and>
   getInstance (initialInstances (onAddInstance 10 defaultInstance 7 8 ''E'' finderUsed)) 4 =
     Some \<lparr>objectName = ''E'', xPos = 7, yPos = 8, zOrder = 5, layerName = []\<rparr>"
proof -
  have wf: "wellFormed (initialInstances scenarioStart)"
    by (simp add: example_defs constructor_def wellFormed_def)
  have name: "newInstanceObjectName ''C'' (selectedObjectName scenarioStart) = Some ''C''"
    by (simp add: newInstanceObjectName_def)
  have ne: "''C'' \<noteq> []" by simp
  have zs: "existingZOrders (initialInstances scenarioStart) = [1, 3]"
    by (simp add: example_defs constructor_def existingZOrders_def)
  have nr: "nextRef (initialInstances scenarioStart) = 2"
    by (simp add: example_defs constructor_def)
  have fin: "zOrderFinder scenarioStart = None"
    by (simp add: example_defs constructor_def)
  have safe: "safeZOrders defaultInstance scenarioStart"
    by (simp add: safeZOrders_def zs fin safeInteger_def defaultInstance_def)
  from addInstance_zOrder_above_existing[OF wf name ne safe, of 10 7 8]
  obtain z where
    "getInstance (initialInstances (onAddInstance 10 defaultInstance 7 8 ''C'' scenarioStart)) 2 =
       Some (defaultInstance\<lparr>objectName := ''C'', xPos := 7, yPos := 8, zOrder := z\<rparr>)"
    and "z = getHighestZOrder
               (zOrderFinder (onAddInstance 10 defaultInstance 7 8 ''C'' scenarioStart)) + 1"
    and "z = Max (insert 0 (set [1, 3])) + 1"
    using zs nr fin by (auto simp add: defaultInstance_def)
  then have first:
    "getInstance (initialInstances (onAddInstance 10 defaultInstance 7 8 ''C'' scenarioStart)) 2 =
       Some \<lparr>objectName = ''C'', xPos = 7, yPos = 8, zOrder = 4, layerName = []\<rparr>"
    "getHighestZOrder
       (zOrderFinder (onAddInstance 10 defaultInstance 7 8 ''C'' scenarioStart)) = 3"
    by (simp_all add: defaultInstance_def)
  have wf': "wellFormed (initialInstances finderUsed)"
    by (simp add: finderUsed_state scenarioGraph_def wellFormed_def)
  have name': "newInstanceObjectName ''E'' (selectedObjectName finderUsed) = Some ''E''"
    by (simp add: newInstanceObjectName_def)
  have ne': "''E'' \<noteq> []" by simp
  have zs': "existingZOrders (initialInstances finderUsed) = [1, 3]"
    by (simp add: finderUsed_state scenarioGraph_def existingZOrders_def)
  have nr': "nextRef (initialInstances finderUsed) = 4"
    by (simp add: finderUsed_state)
  have safe': "safeZOrders defaultInstance finderUsed"
    by (simp add: safeZOrders_def zs' finderUsed_state(2) safeInteger_def defaultInstance_def)
  from addInstance_zOrder_above_existing[OF wf' name' ne' safe', of 10 7 8]
  obtain z' where
    "getInstance (initialInstances (onAddInstance 10 defaultInstance 7 8 ''E'' finderUsed)) 4 =
       Some (defaultInstance\<lparr>objectName := ''E'', xPos := 7, yPos := 8, zOrder := z'\<rparr>)"
    and "z' = Max (insert 0 (set [1, 3] \<union> {4})) + 1"
    using zs' nr' finderUsed_state(2) by (auto simp add: defaultInstance_def)
  then have second:
    "getInstance (initialInstances (onAddInstance 10 defaultInstance 7 8 ''E'' finderUsed)) 4 =
       Some \<lparr>objectName = ''E'', xPos = 7, yPos = 8, zOrder = 5, layerName = []\<rparr>"
    by (simp add: defaultInstance_def)
  show ?thesis
    using wf name safe first wf' name' safe' zs' second by simp
qed

section \<open>Deleting a non-empty selection\<close>

text \<open>
  Claim C5: with a non-empty selection, \<^verbatim>\<open>deleteSelection\<close> removes exactly the selected
  instances from the scene graph, so that no selected reference names an instance any
  more, and in the same step empties the selection.
\<close>

theorem deleteSelection_removes_selected:
  assumes "getSelectedInstances (instancesSelection s) \<noteq> []"
  shows "entries (initialInstances (deleteSelection maxDepth s)) =
           filter (\<lambda>(k, i). k \<notin> set (getSelectedInstances (instancesSelection s)))
             (entries (initialInstances s)) \<and>
         (\<forall>r \<in> set (getSelectedInstances (instancesSelection s)).
            getInstance (initialInstances (deleteSelection maxDepth s)) r = None) \<and>
         getSelectedInstances (instancesSelection (deleteSelection maxDepth s)) = []"
proof -
  have e: "entries (initialInstances (deleteSelection maxDepth s)) =
           filter (\<lambda>(k, i). k \<notin> set (getSelectedInstances (instancesSelection s)))
             (entries (initialInstances s))"
    by (simp add: deleteSelection_def updateToolbar_def Let_def fold_removeInstance_entries)
  have "\<forall>r \<in> set (getSelectedInstances (instancesSelection s)).
            getInstance (initialInstances (deleteSelection maxDepth s)) r = None"
    unfolding getInstance_def e by (auto simp add: map_of_eq_None_iff)
  moreover have "getSelectedInstances (instancesSelection (deleteSelection maxDepth s)) = []"
    by (simp add: deleteSelection_def updateToolbar_def Let_def clearSelection_def
        getSelectedInstances_def)
  ultimately show ?thesis using e by simp
qed

text \<open>
  Claim C5 on the session where \<open>Hero\<close> was added and selected.
\<close>

theorem deleteSelection_removes_selected_witness:
  "getSelectedInstances (instancesSelection heroSelected) \<noteq> [] \<and>
   entries (initialInstances (deleteSelection 10 heroSelected)) = [] \<and>
   getInstance (initialInstances (deleteSelection 10 heroSelected)) 0 = None \<and>
   getSelectedInstances (instancesSelection (deleteSelection 10 heroSelected)) = []"
proof -
  have h: "getSelectedInstances (instancesSelection heroSelected) \<noteq> []"
    by (simp add: heroSelected_selection getSelectedInstances_def)
  show ?thesis
    using h deleteSelection_removes_selected[OF h, of 10]
    by (simp add: heroSelected_selection heroSelected_graph getSelectedInstances_def)
qed

section \<open>Adding with no object chosen\<close>

text \<open>
  Claim C6: when the effective object name is \<^verbatim>\<open>null\<close> or the empty string,
  \<^verbatim>\<open>_onAddInstance\<close> returns at once and the whole state is as before: no instance, no
  history commit, and nothing raised.
\<close>

theorem addInstance_no_object_noop:
  assumes "falsy (newInstanceObjectName objName (selectedObjectName s))"
  shows "onAddInstance maxDepth dflt x y objName s = s"
  using assms by (simp add: onAddInstance_def)

text \<open>
  Claim C6 on the scenario scene, with no object chosen.
\<close>

theorem addInstance_no_object_noop_witness:
  "falsy (newInstanceObjectName [] (selectedObjectName scenarioStart)) \<and>
   falsy (newInstanceObjectName [] (selectedObjectName (onObjectSelected (Some []) scenarioStart))) \<and>
   onAddInstance 10 defaultInstance 7 8 [] scenarioStart = scenarioStart \<and>
   initialInstances (onAddInstance 10 defaultInstance 7 8 [] scenarioStart) = scenarioGraph \<and>
   past (history (onAddInstance 10 defaultInstance 7 8 [] scenarioStart)) = []"
proof -
  have h: "falsy (newInstanceObjectName [] (selectedObjectName scenarioStart))"
    by (simp add: example_defs constructor_def falsy_def newInstanceObjectName_def)
  have h2: "falsy (newInstanceObjectName []
      (selectedObjectName (onObjectSelected (Some []) scenarioStart)))"
    by (simp add: onObjectSelected_def falsy_def newInstanceObjectName_def)
  have "initialInstances scenarioStart = scenarioGraph" "past (history scenarioStart) = []"
    by (simp_all add: example_defs constructor_def history_defs)
  then show ?thesis
    using h h2 addInstance_no_object_noop[OF h, of 10 defaultInstance 7 8] by simp
qed

section \<open>Modifying instances\<close>

text \<open>
  Claim C7 as stated, at the scenario scene: after the x position of \<open>A\<close> is edited, the
  history is not the one a commit of the edited graph would give; the past is still
  empty.
\<close>

theorem modifyInstances_commit_counterexample:
  "\<not> (history (modifyInstances [0] (\<lambda>i. i\<lparr>xPos := 42\<rparr>) scenarioStart) =
        saveToHistory 10 (history scenarioStart)
          (initialInstances (modifyInstances [0] (\<lambda>i. i\<lparr>xPos := 42\<rparr>) scenarioStart))) \<and>
   map_option xPos
     (getInstance (initialInstances (modifyInstances [0] (\<lambda>i. i\<lparr>xPos := 42\<rparr>) scenarioStart)) 0)
     = Some 42 \<and>
   past (history (modifyInstances [0] (\<lambda>i. i\<lparr>xPos := 42\<rparr>) scenarioStart)) = []"
  by (simp add: example_defs editor_defs history_defs graph_defs)

text \<open>
  Claim C7, amended: a property edit changes the instances in the scene graph, and
  \<^verbatim>\<open>_onInstancesModified\<close> only re-renders: the editor state, and with it the history,
  is left as it was. No commit is made.
\<close>

theorem modifyInstances_history_unchanged:
  "history (modifyInstances instances propertyEdits s) = history s \<and>
   onInstancesModified instances s = s \<and>
   initialInstances (modifyInstances instances propertyEdits s) =
     fold (\<lambda>r. updateInstance r propertyEdits) instances (initialInstances s)"
  by (simp add: modifyInstances_def onInstancesModified_def)

section \<open>View settings\<close>

text \<open>
  Claim C8: \<^verbatim>\<open>toggleWindowMask\<close>, \<^verbatim>\<open>toggleGrid\<close> and \<^verbatim>\<open>setUiSettings\<close> leave the
  history (past, present and future) and the scene graph unchanged.
\<close>

theorem uiSettings_not_historized:
  "history (toggleWindowMask s) = history s \<and>
   history (toggleGrid s) = history s \<and>
   history (setUiSettings newSettings s) = history s \<and>
   initialInstances (toggleWindowMask s) = initialInstances s \<and>
   initialInstances (toggleGrid s) = initialInstances s \<and>
   initialInstances (setUiSettings newSettings s) = initialInstances s"
  by (simp add: toggleWindowMask_def toggleGrid_def setUiSettings_def)

section \<open>The effective object name\<close>

text \<open>
  Claim C9: for every call of \<^verbatim>\<open>_onAddInstance\<close> the effective object name is the
  \<^verbatim>\<open>objectName\<close> argument whenever that is non-empty, whatever object is selected, and
  the selected object name otherwise; and the instance a successful call creates carries
  that effective name.
\<close>

theorem addInstance_effective_object_name:
  "(objName \<noteq> [] \<longrightarrow>
      newInstanceObjectName objName (selectedObjectName s) = Some objName) \<and>
   (objName = [] \<longrightarrow>
      newInstanceObjectName objName (selectedObjectName s) = selectedObjectName s) \<and>
   (wellFormed (initialInstances s) \<and>
    newInstanceObjectName objName (selectedObjectName s) = Some n \<and> n \<noteq> [] \<longrightarrow>
      map_option objectName
        (getInstance (initialInstances (onAddInstance maxDepth dflt x y objName s))
           (nextRef (initialInstances s))) = Some n)"
proof (intro conjI impI)
  assume "objName \<noteq> []"
  then show "newInstanceObjectName objName (selectedObjectName s) = Some objName"
    by (simp add: newInstanceObjectName_def)
next
  assume "objName = []"
  then show "newInstanceObjectName objName (selectedObjectName s) = selectedObjectName s"
    by (simp add: newInstanceObjectName_def)
next
  assume "wellFormed (initialInstances s) \<and>
    newInstanceObjectName objName (selectedObjectName s) = Some n \<and> n \<noteq> []"
  then have wf: "wellFormed (initialInstances s)"
    and name: "newInstanceObjectName objName (selectedObjectName s) = Some n"
    and ne: "n \<noteq> []"
    by simp_all
  show "map_option objectName
        (getInstance (initialInstances (onAddInstance maxDepth dflt x y objName s))
           (nextRef (initialInstances s))) = Some n"
    by (simp add: onAddInstance_getInstance[OF wf name ne])
qed

text \<open>
  Claim C9 with \<open>Rock\<close> chosen in the objects list: an explicit \<open>Hero\<close> wins, an empty
  argument falls back to \<open>Rock\<close>.
\<close>

theorem addInstance_effective_object_name_witness:
  "''Hero'' \<noteq> [] \<and>
   wellFormed (initialInstances rockChosen) \<and>
   selectedObjectName rockChosen = Some ''Rock'' \<and>
   newInstanceObjectName ''Hero'' (selectedObjectName rockChosen) = Some ''Hero'' \<and>
   newInstanceObjectName [] (selectedObjectName rockChosen) = Some ''Rock'' \<and>
   map_option objectName
     (getInstance (initialInstances (onAddInstance 10 defaultInstance 7 8 ''Hero'' rockChosen)) 2) =
       Some ''Hero'' \<and>
   map_option objectName
     (getInstance (initialInstances (onAddInstance 10 defaultInstance 7 8 [] rockChosen)) 2) =
       Some ''Rock''"
proof -
  have wf: "wellFormed (initialInstances rockChosen)"
    by (simp add: rockChosen_def onObjectSelected_def example_defs constructor_def wellFormed_def)
  have sel: "selectedObjectName rockChosen = Some ''Rock''"
    by (simp add: rockChosen_def onObjectSelected_def)
  have nr: "nextRef (initialInstances rockChosen) = 2"
    by (simp add: rockChosen_def onObjectSelected_def example_defs constructor_def)
  show ?thesis
    using wf sel nr
      addInstance_effective_object_name
        [where objName = "''Hero''" and s = rockChosen and n = "''Hero''"
           and maxDepth = 10 and dflt = defaultInstance and x = 7 and y = 8]
      addInstance_effective_object_name
        [where objName = "[]" and s = rockChosen and n = "''Rock''"
           and maxDepth = 10 and dflt = defaultInstance and x = 7 and y = 8]
    by simp
qed

section \<open>Toggling the grid\<close>

text \<open>
  Claim C10: after \<^verbatim>\<open>toggleGrid\<close> both \<^verbatim>\<open>grid\<close> and \<^verbatim>\<open>snap\<close> hold the negation of
  the previous \<^verbatim>\<open>grid\<close>, whatever \<^verbatim>\<open>snap\<close> was.
\<close>

theorem toggleGrid_sets_grid_and_snap:
  "uiSettings (toggleGrid s) ''grid'' = Some (JBool (\<not> truthy (uiSettings s ''grid''))) \<and>
   uiSettings (toggleGrid s) ''snap'' = Some (JBool (\<not> truthy (uiSettings s ''grid''))) \<and>
   truthy (uiSettings (toggleGrid s) ''grid'') = (\<not> truthy (uiSettings s ''grid'')) \<and>
   truthy (uiSettings (toggleGrid s) ''snap'') = (\<not> truthy (uiSettings s ''grid''))"
  by (simp add: toggleGrid_def truthy_def)

end
